theory Spec2Isabelle
  imports Main
begin

section \<open>JavaScript values and strings\<close>

text \<open>
  The values that travel through the schema inspector are plain JavaScript values: catalog
  rows are objects of strings, numbers, booleans and \<open>null\<close>, and a property that a row does
  not have reads as \<open>undefined\<close>. A JavaScript string is modelled as a \<open>string\<close> whose
  characters are its code units; the model covers the code units below 256.
\<close>

datatype js_val =
    JUndefined
  | JNull
  | JBool bool
  | JNum int
  | JStr string
  | JObj "(string \<times> js_val) list"

text \<open>JavaScript truthiness, as used by \<open>if (x)\<close> and \<open>x && y\<close>.\<close>

fun truthy :: "js_val \<Rightarrow> bool" where
  "truthy JUndefined = False"
| "truthy JNull = False"
| "truthy (JBool b) = b"
| "truthy (JNum n) = (n \<noteq> 0)"
| "truthy (JStr s) = (s \<noteq> [])"
| "truthy (JObj kvs) = True"

text \<open>
  \<open>String.prototype.toLowerCase\<close> on code units below 256: the letters \<open>A\<close> to \<open>Z\<close> and the
  Latin-1 capitals \<open>0xC0\<close> to \<open>0xDE\<close> (without the multiplication sign \<open>0xD7\<close>) move up by 32,
  every other code unit stays.
\<close>

definition toLowerCase_char :: "char \<Rightarrow> char" where
  "toLowerCase_char c =
     (let n = (of_char c :: nat)
      in if (65 \<le> n \<and> n \<le> 90) \<or> (192 \<le> n \<and> n \<le> 222 \<and> n \<noteq> 215)
         then char_of (n + 32) else c)"

definition toLowerCase :: "string \<Rightarrow> string" where
  "toLowerCase s = map toLowerCase_char s"

text \<open>\<open>String.prototype.includes\<close>: does \<open>sub\<close> occur in \<open>s\<close> as a contiguous run?\<close>

fun js_includes :: "string \<Rightarrow> string \<Rightarrow> bool" where
  "js_includes [] sub = (sub = [])"
| "js_includes (c # s) sub = (take (length sub) (c # s) = sub \<or> js_includes s sub)"

section \<open>PostgreSQL schema inspector\<close>

subsection \<open>Column type mapping\<close>

text \<open>
  \<open>RawColumn\<close>: a row of \<open>information_schema.columns\<close>. The column default is \<open>null\<close> for a
  column without one (the source guards the read with \<open>column.column_default && ...\<close>), and
  the maximum length is whatever value the catalog holds, passed through unread.
\<close>

record RawColumn =
  data_type :: string
  column_name :: string
  character_maximum_length :: js_val
  column_default :: "string option"
  is_nullable :: string

text \<open>
  The object \<open>toStrapiType\<close> returns: a \<open>type\<close> and, in some branches only, \<open>args\<close>
  (\<open>None\<close> is the absent property). No branch sets any other property.
\<close>

record StrapiType =
  st_type :: string
  st_args :: "js_val list option"

text \<open>
  \<open>column.data_type.toLowerCase().match(/[^(), ]+/)?.[0]\<close>: the first maximal run of
  characters other than \<open>(\<close>, \<open>)\<close>, comma and space, or \<open>undefined\<close> (\<open>None\<close>) when the string
  has no such character.
\<close>

definition is_sep :: "char \<Rightarrow> bool" where
  "is_sep c = (c = CHR ''('' \<or> c = CHR '')'' \<or> c = CHR '','' \<or> c = CHR '' '')"

definition rootType :: "RawColumn \<Rightarrow> string option" where
  "rootType column =
     (let run = takeWhile (\<lambda>c. \<not> is_sep c) (dropWhile is_sep (toLowerCase (data_type column)))
      in if run = [] then None else Some run)"

definition toStrapiType :: "RawColumn \<Rightarrow> StrapiType" where
  "toStrapiType column =
     (let r = rootType column in
      if r = Some ''integer'' then \<lparr>st_type = ''integer'', st_args = None\<rparr>
      else if r = Some ''text'' then \<lparr>st_type = ''text'', st_args = Some [JStr ''longtext'']\<rparr>
      else if r = Some ''boolean'' then \<lparr>st_type = ''boolean'', st_args = None\<rparr>
      else if r = Some ''character'' then
        \<lparr>st_type = ''string'', st_args = Some [character_maximum_length column]\<rparr>
      else if r = Some ''timestamp'' then
        \<lparr>st_type = ''datetime'',
         st_args = Some [JObj [(''useTz'', JBool False), (''precision'', JNum 6)]]\<rparr>
      else if r = Some ''date'' then \<lparr>st_type = ''date'', st_args = None\<rparr>
      else if r = Some ''time'' then
        \<lparr>st_type = ''time'', st_args = Some [JObj [(''precision'', JNum 3)]]\<rparr>
      else if r = Some ''numeric'' then
        \<lparr>st_type = ''decimal'', st_args = Some [JNum 10, JNum 2]\<rparr>
      else if r = Some ''real'' \<or> r = Some ''double'' then
        \<lparr>st_type = ''double'', st_args = None\<rparr>
      else if r = Some ''bigint'' then \<lparr>st_type = ''bigInteger'', st_args = None\<rparr>
      else if r = Some ''jsonb'' then \<lparr>st_type = ''jsonb'', st_args = None\<rparr>
      else \<lparr>st_type = ''specificType'', st_args = Some [JStr (data_type column)]\<rparr>)"

subsection \<open>Columns\<close>

record Column =
  type :: string
  args :: "js_val list"
  defaultTo :: "string option"
  name :: string
  notNullable :: bool
  unsigned :: bool

text \<open>
  The callback of \<open>columns.map\<close> in \<open>getColumns\<close>. \<open>args\<close> defaults to the empty array, and
  the spread of the remaining properties of the \<open>toStrapiType\<close> result adds nothing, since
  that result has no property besides \<open>type\<close> and \<open>args\<close>. An empty default string is falsy,
  so it is surfaced as it is.
\<close>

definition toColumn :: "RawColumn \<Rightarrow> Column" where
  "toColumn column =
     (let t = toStrapiType column;
          d = (case column_default column of
                 None \<Rightarrow> None
               | Some s \<Rightarrow> if s \<noteq> [] \<and> js_includes s ''nextval('' then None else Some s)
      in \<lparr>type = st_type t,
          args = (case st_args t of None \<Rightarrow> [] | Some a \<Rightarrow> a),
          defaultTo = d,
          name = column_name column,
          notNullable = (is_nullable column = ''NO''),
          unsigned = False\<rparr>)"

text \<open>
  \<open>getColumns\<close>, as a function of the rows that the catalog query for the table returns.
\<close>

definition getColumns :: "RawColumn list \<Rightarrow> Column list" where
  "getColumns columns = map toColumn columns"

subsection \<open>Indexes\<close>

text \<open>
  A row as the query builder hands it over: an object, here the list of its properties.
  Reading a property the object does not have gives \<open>undefined\<close>.
\<close>

type_synonym row = "(string \<times> js_val) list"

definition get_prop :: "row \<Rightarrow> string \<Rightarrow> js_val" where
  "get_prop r k = (case map_of r k of None \<Rightarrow> JUndefined | Some v \<Rightarrow> v)"

text \<open>\<open>.select(c1, c2, ...)\<close>: the result rows carry the selected columns only.\<close>

definition knex_select :: "string list \<Rightarrow> row \<Rightarrow> row" where
  "knex_select cols r = filter (\<lambda>kv. fst kv \<in> set cols) r"

text \<open>
  \<open>getIndexType\<close> returns \<open>'primary'\<close>, \<open>'unique'\<close>, or falls off its end, which is
  \<open>undefined\<close>.
\<close>

definition getIndexType :: "row \<Rightarrow> js_val" where
  "getIndexType index =
     (if truthy (get_prop index ''is_primary'') then JStr ''primary''
      else if truthy (get_prop index ''is_unique'') then JStr ''unique''
      else JUndefined)"

text \<open>
  \<open>indexDef.match(/\((.*?)\)/)\<close>: the leftmost \<open>(\<close> that is followed, with no line terminator
  in between, by a \<open>)\<close>; the captured group is the text up to the first such \<open>)\<close>.
\<close>

definition line_terminator :: "char \<Rightarrow> bool" where
  "line_terminator c = (c = CHR 0x0A \<or> c = CHR 0x0D)"

fun first_group :: "string \<Rightarrow> string option" where
  "first_group [] = None"
| "first_group (c # s) =
     (if c = CHR ''('' then
        (let inner = takeWhile (\<lambda>d. d \<noteq> CHR '')'' \<and> \<not> line_terminator d) s
         in case drop (length inner) s of
              [] \<Rightarrow> first_group s
            | d # _ \<Rightarrow> if d = CHR '')'' then Some inner else first_group s)
      else first_group s)"

text \<open>\<open>split(',')\<close>: the pieces between the commas; the empty string gives one empty piece.\<close>

fun split_comma :: "string \<Rightarrow> string list" where
  "split_comma [] = [[]]"
| "split_comma (c # s) =
     (if c = CHR '','' then [] # split_comma s
      else (case split_comma s of [] \<Rightarrow> [[c]] | piece # pieces \<Rightarrow> (c # piece) # pieces))"

text \<open>\<open>trim()\<close> removes white space and line terminators from both ends.\<close>

definition white_space :: "char \<Rightarrow> bool" where
  "white_space c =
     (c = CHR 0x09 \<or> c = CHR 0x0B \<or> c = CHR 0x0C \<or> c = CHR 0x20 \<or> c = CHR 0xA0
      \<or> line_terminator c)"

definition trim :: "string \<Rightarrow> string" where
  "trim s = rev (dropWhile white_space (rev (dropWhile white_space s)))"

definition parseIndexColumns :: "string \<Rightarrow> string list" where
  "parseIndexColumns indexDef =
     (case first_group indexDef of
        None \<Rightarrow> []
      | Some inner \<Rightarrow> map trim (split_comma inner))"

record Index =
  index_name :: js_val
  index_columns :: "string list"
  index_type :: js_val

datatype js_error = TypeError

text \<open>
  The callback of \<open>indexes.map\<close> in \<open>getIndexes\<close>. Calling \<open>match\<close> on an \<open>indexdef\<close> that is
  not a string raises a \<open>TypeError\<close>.
\<close>

definition toIndex :: "row \<Rightarrow> js_error + Index" where
  "toIndex index =
     (case get_prop index ''indexdef'' of
        JStr indexDef \<Rightarrow>
          Inr \<lparr>index_name = get_prop index ''indexname'',
               index_columns = parseIndexColumns indexDef,
               index_type = getIndexType index\<rparr>
      | _ \<Rightarrow> Inl TypeError)"

text \<open>\<open>Array.prototype.map\<close> with a callback that may throw: the first error ends the call.\<close>

fun map_throwing :: "('a \<Rightarrow> js_error + 'b) \<Rightarrow> 'a list \<Rightarrow> js_error + 'b list" where
  "map_throwing f [] = Inr []"
| "map_throwing f (x # xs) =
     (case f x of
        Inl e \<Rightarrow> Inl e
      | Inr y \<Rightarrow> (case map_throwing f xs of Inl e \<Rightarrow> Inl e | Inr ys \<Rightarrow> Inr (y # ys)))"

text \<open>
  \<open>getIndexes\<close>, as a function of the rows of \<open>pg_indexes\<close> that match the table: the query
  selects \<open>indexname\<close> and \<open>indexdef\<close>, and each selected row becomes an index.
\<close>

definition getIndexes :: "row list \<Rightarrow> js_error + Index list" where
  "getIndexes pg_indexes =
     map_throwing toIndex (map (knex_select [''indexname'', ''indexdef'']) pg_indexes)"

section \<open>The \<open>Protect\<close> page wrapper\<close>

text \<open>
  A permission has an action, a subject (a string, \<open>null\<close>, or left out) and possibly an
  array of conditions. The same shape serves for the permissions of the user and for the
  ones a page asks for.
\<close>

datatype subject = SubjectUndefined | SubjectNull | Subject string

record Permission =
  action :: string
  subject :: subject
  conditions :: "string list option"

text \<open>
  What the permission-check query hook hands back. The hook comes from the API layer and
  is a parameter of the model: it receives the permissions to check and the \<open>skip\<close> option.
\<close>

record 'e QueryResult =
  isLoading :: bool
  error :: "'e option"
  data :: "bool list option"

type_synonym 'e CheckPermissionsQuery = "(string \<times> subject) list \<Rightarrow> bool \<Rightarrow> 'e QueryResult"

datatype 'n children = Node 'n | Function "Permission list \<Rightarrow> 'n"

datatype 'n element = Loading | Error | NoPermissions | Content 'n

record Notification =
  notification_type :: string
  message :: string

text \<open>One render of \<open>Protect\<close>: the element it returns and the notifications its effect raises.\<close>

record 'n Rendered =
  element :: "'n element"
  notifications :: "Notification list"

definition matchingPermissions :: "Permission list \<Rightarrow> Permission list \<Rightarrow> Permission list" where
  "matchingPermissions allPermissions permissions =
     filter (\<lambda>permission.
        \<exists>perm \<in> set permissions.
          action perm = action permission \<and> subject perm = subject permission)
       allPermissions"

definition shouldCheckConditions :: "Permission list \<Rightarrow> bool" where
  "shouldCheckConditions matching =
     (\<exists>perm \<in> set matching.
        case conditions perm of None \<Rightarrow> False | Some cs \<Rightarrow> length cs > 0)"

definition Protect ::
  "Permission list \<Rightarrow> 'e CheckPermissionsQuery \<Rightarrow> ('e \<Rightarrow> string) \<Rightarrow>
   Permission list option \<Rightarrow> 'n children \<Rightarrow> 'n Rendered" where
  "Protect allPermissions useCheckPermissionsQuery formatAPIError permissions_prop children =
     (let permissions = (case permissions_prop of None \<Rightarrow> [] | Some ps \<Rightarrow> ps);
          matching = matchingPermissions allPermissions permissions;
          check = shouldCheckConditions matching;
          q = useCheckPermissionsQuery
                (map (\<lambda>perm. (action perm, subject perm)) matching) (\<not> check);
          results = (case data q of None \<Rightarrow> [] | Some d \<Rightarrow> d);
          notes = (case error q of
                     None \<Rightarrow> []
                   | Some e \<Rightarrow>
                       [\<lparr>notification_type = ''warning'', message = formatAPIError e\<rparr>]);
          canAccess = (if check then False \<notin> set results else length matching > 0)
      in \<lparr>element =
            (if isLoading q then Loading
             else if error q \<noteq> None then Error
             else if \<not> canAccess then NoPermissions
             else (case children of Node n \<Rightarrow> Content n | Function f \<Rightarrow> Content (f matching))),
          notifications = notes\<rparr>)"

section \<open>Document service: delete\<close>

text \<open>
  Modelled from the spec: the data model of the document service (section 3), whose code is
  not among the sources. The store of one content type holds the version rows of its
  documents, and the tables of the component rows and of the dynamic-zone rows that versions
  own. A version names the child rows it owns by their ids.
\<close>

datatype status = Draft | Published

record DocumentVersion =
  version_id :: nat
  documentId :: string
  version_locale :: string
  version_status :: status
  version_fields :: "(string \<times> string) list"
  componentRefs :: "nat list"
  dynamicZoneRefs :: "nat list"

record ChildRow =
  child_id :: nat
  child_fields :: "(string \<times> string) list"

record Store =
  versions :: "DocumentVersion list"
  components :: "ChildRow list"
  dynamicZones :: "ChildRow list"

record DeleteOptions =
  opt_locale :: "string option"
  opt_status :: "status option"

datatype document_error = ValidationError string | NotFoundError

text \<open>
  Modelled from the spec: the scope of a delete call (section 4.2), whose code is not among
  the sources. The versions aimed at are those of the document, in the locale and with the
  status the options name, each option left out meaning all.
\<close>

definition in_scope :: "string \<Rightarrow> DeleteOptions \<Rightarrow> DocumentVersion \<Rightarrow> bool" where
  "in_scope d opts v =
     (documentId v = d
      \<and> (case opt_locale opts of None \<Rightarrow> True | Some l \<Rightarrow> version_locale v = l)
      \<and> (case opt_status opts of None \<Rightarrow> True | Some s \<Rightarrow> version_status v = s))"

text \<open>
  Modelled from the spec: the delete path of the document service (its implementation is
  not among the sources; only its test suite is). Cascade rule of the spec, section 4.2:
  deleting a version row first deletes the component and dynamic-zone rows it owns, then
  the version row.
\<close>

definition deleteVersion :: "DocumentVersion \<Rightarrow> Store \<Rightarrow> Store" where
  "deleteVersion v st =
     (let st1 = st\<lparr>components := filter (\<lambda>c. child_id c \<notin> set (componentRefs v)) (components st),
                   dynamicZones :=
                     filter (\<lambda>c. child_id c \<notin> set (dynamicZoneRefs v)) (dynamicZones st)\<rparr>
      in st1\<lparr>versions := filter (\<lambda>w. w \<noteq> v) (versions st1)\<rparr>)"

text \<open>
  Modelled from the spec: \<open>delete(documentId, options)\<close> of the document service (its
  implementation is not among the sources). Spec, sections 4.2 and 7: status \<open>draft\<close> is
  rejected with a validation error; a target that does not exist is reported and nothing
  happens; otherwise every version in scope is deleted with its children, in one
  transaction. The result is the store after the call and the outcome reported.
\<close>

definition delete :: "Store \<Rightarrow> string \<Rightarrow> DeleteOptions \<Rightarrow> Store \<times> (document_error + unit)" where
  "delete st d opts =
     (if opt_status opts = Some Draft then
        (st, Inl (ValidationError ''Cannot delete a draft document''))
      else
        (let targets = filter (in_scope d opts) (versions st)
         in if targets = [] then (st, Inl NotFoundError)
            else (fold deleteVersion targets st, Inr ())))"

text \<open>
  Modelled from the spec: exclusive ownership, the invariant of the data model (section 3)
  that the absent document service maintains: no component or dynamic-zone row is owned by
  two different versions.
\<close>

definition exclusive_ownership :: "Store \<Rightarrow> bool" where
  "exclusive_ownership st =
     (\<forall>v \<in> set (versions st). \<forall>w \<in> set (versions st).
        v \<noteq> w \<longrightarrow>
          set (componentRefs v) \<inter> set (componentRefs w) = {}
          \<and> set (dynamicZoneRefs v) \<inter> set (dynamicZoneRefs w) = {})"

text \<open>
  A store in the shape of the fixtures of the test suite: one article with an English and a
  Dutch draft, one with an English draft and its published version, each version owning
  component rows.
\<close>

definition example_store :: Store where
  "example_store =
     \<lparr>versions =
        [\<lparr>version_id = 1, documentId = ''Article1'', version_locale = ''en'',
           version_status = Draft, version_fields = [(''title'', ''Article1-Draft-EN'')],
           componentRefs = [1], dynamicZoneRefs = [1]\<rparr>,
         \<lparr>version_id = 2, documentId = ''Article1'', version_locale = ''nl'',
           version_status = Draft, version_fields = [(''title'', ''Article1-Draft-NL'')],
           componentRefs = [2], dynamicZoneRefs = []\<rparr>,
         \<lparr>version_id = 3, documentId = ''Article2'', version_locale = ''en'',
           version_status = Draft, version_fields = [(''title'', ''Article2-Draft-EN'')],
           componentRefs = [3], dynamicZoneRefs = []\<rparr>,
         \<lparr>version_id = 4, documentId = ''Article2'', version_locale = ''en'',
           version_status = Published, version_fields = [(''title'', ''Article2-Published-EN'')],
           componentRefs = [4], dynamicZoneRefs = [2]\<rparr>],
      components =
        [\<lparr>child_id = 1, child_fields = [(''text'', ''comp-1'')]\<rparr>,
         \<lparr>child_id = 2, child_fields = [(''text'', ''comp-2'')]\<rparr>,
         \<lparr>child_id = 3, child_fields = [(''text'', ''comp-3'')]\<rparr>,
         \<lparr>child_id = 4, child_fields = [(''text'', ''comp-4'')]\<rparr>],
      dynamicZones =
        [\<lparr>child_id = 1, child_fields = [(''name'', ''dz-comp-1'')]\<rparr>,
         \<lparr>child_id = 2, child_fields = [(''name'', ''dz-comp-2'')]\<rparr>]\<rparr>"

section \<open>Vocabularies\<close>

text \<open>
  The semantic column types as the specification lists them (section 3), and the index
  kinds as the specification lists them.
\<close>

definition spec_semantic_types :: "string set" where
  "spec_semantic_types =
     {''integer'', ''text'', ''boolean'', ''string'', ''datetime'', ''date'', ''time'',
      ''decimal'', ''double'', ''bigInteger'', ''json'', ''specificType''}"

definition spec_index_kinds :: "js_val set" where
  "spec_index_kinds = {JStr ''primary'', JStr ''unique'', JStr ''secondary''}"

text \<open>
  The types that the branches of \<open>toStrapiType\<close> return, and the root names that have a
  branch of their own in its \<open>switch\<close>.
\<close>

definition semantic_types :: "string set" where
  "semantic_types =
     {''integer'', ''text'', ''boolean'', ''string'', ''datetime'', ''date'', ''time'',
      ''decimal'', ''double'', ''bigInteger'', ''jsonb'', ''specificType''}"

definition mapped_root_types :: "string set" where
  "mapped_root_types =
     {''integer'', ''text'', ''boolean'', ''character'', ''timestamp'', ''date'', ''time'',
      ''numeric'', ''real'', ''double'', ''bigint'', ''jsonb''}"

section \<open>Sequence-generator calls\<close>

text \<open>
  The condition on a column default in the words of the specification: the default
  expression is a sequence-generator call, that is, it contains an invocation
  \<open>nextval(...)\<close>. An invocation is text of the expression itself, so it is looked for
  outside the string literals of the expression, which SQL writes between single quotes.
\<close>

fun outside_literals :: "bool \<Rightarrow> string \<Rightarrow> string" where
  "outside_literals quoted [] = []"
| "outside_literals quoted (c # s) =
     (if c = CHR 0x27 then outside_literals (\<not> quoted) s
      else if quoted then outside_literals quoted s
      else c # outside_literals quoted s)"

fun has_invocation :: "string \<Rightarrow> bool" where
  "has_invocation [] = False"
| "has_invocation (c # s) =
     ((take 8 (c # s) = ''nextval('' \<and> CHR '')'' \<in> set (drop 8 (c # s)))
      \<or> has_invocation s)"

definition spec_sequence_call :: "string \<Rightarrow> bool" where
  "spec_sequence_call d = has_invocation (outside_literals False d)"

section \<open>Properties of the schema inspector\<close>

subsection \<open>Column types\<close>

lemma toStrapiType_type: "st_type (toStrapiType column) \<in> semantic_types"
  by (simp add: toStrapiType_def semantic_types_def Let_def)

lemma toStrapiType_fallback:
  assumes "rootType column \<notin> Some ` mapped_root_types"
  shows "toStrapiType column
         = \<lparr>st_type = ''specificType'', st_args = Some [JStr (data_type column)]\<rparr>"
  using assms by (auto simp add: toStrapiType_def mapped_root_types_def Let_def)

text \<open>
  Claim C5, as stated, fails: a \<open>jsonb\<close> column gets the type \<open>jsonb\<close>, which is not in the
  vocabulary of the specification (that lists \<open>json\<close>).
\<close>

theorem column_type_vocabulary_counterexample:
  "type (toColumn \<lparr>data_type = ''jsonb'', column_name = ''meta'',
           character_maximum_length = JNull, column_default = None, is_nullable = ''YES''\<rparr>)
   \<notin> spec_semantic_types"
  by code_simp

text \<open>
  Claim C5, amended: the type of every column is one of integer, text, boolean, string,
  datetime, date, time, decimal, double, bigInteger, jsonb, specificType; and a native type
  whose root name has no branch in the mapping becomes \<open>specificType\<close> with the native type
  string, as the catalog gave it, as the only argument. The mapping is a function with no
  failing branch.
\<close>

theorem column_type_vocabulary:
  "type (toColumn column) \<in> semantic_types
   \<and> (rootType column \<notin> Some ` mapped_root_types \<longrightarrow>
        type (toColumn column) = ''specificType''
        \<and> args (toColumn column) = [JStr (data_type column)])"
  using toStrapiType_type[of column] toStrapiType_fallback[of column]
  by (simp add: toColumn_def Let_def)

theorem column_type_vocabulary_witness:
  "type (toColumn \<lparr>data_type = ''UUID'', column_name = ''document_id'',
           character_maximum_length = JNull, column_default = None, is_nullable = ''YES''\<rparr>)
     = ''specificType''
   \<and> args (toColumn \<lparr>data_type = ''UUID'', column_name = ''document_id'',
           character_maximum_length = JNull, column_default = None, is_nullable = ''YES''\<rparr>)
     = [JStr ''UUID'']"
proof -
  let ?c = "\<lparr>data_type = ''UUID'', column_name = ''document_id'',
           character_maximum_length = JNull, column_default = None, is_nullable = ''YES''\<rparr>"
  have "rootType ?c = Some ''uuid''" by code_simp
  then have "rootType ?c \<notin> Some ` mapped_root_types"
    by (simp add: mapped_root_types_def)
  then show ?thesis using column_type_vocabulary[of ?c] by simp
qed

text \<open>
  Claim C10: a column whose root type name is \<open>numeric\<close> comes out of \<open>getColumns\<close> as
  \<open>decimal\<close> with the arguments 10 and 2, and one whose root type name is \<open>timestamp\<close> as
  \<open>datetime\<close> with \<open>useTz: false, precision: 6\<close>, whatever else the catalog row says.
\<close>

theorem getColumns_fixed_args:
  "\<forall>i < length columns.
     (rootType (columns ! i) = Some ''numeric'' \<longrightarrow>
        type (getColumns columns ! i) = ''decimal''
        \<and> args (getColumns columns ! i) = [JNum 10, JNum 2])
     \<and> (rootType (columns ! i) = Some ''timestamp'' \<longrightarrow>
        type (getColumns columns ! i) = ''datetime''
        \<and> args (getColumns columns ! i)
            = [JObj [(''useTz'', JBool False), (''precision'', JNum 6)]])"
  by (simp add: getColumns_def toColumn_def toStrapiType_def Let_def)

theorem getColumns_fixed_args_witness:
  "map (\<lambda>c. (type c, args c)) (getColumns
     [\<lparr>data_type = ''NUMERIC(12,4)'', column_name = ''price'', character_maximum_length = JNull,
        column_default = None, is_nullable = ''YES''\<rparr>,
      \<lparr>data_type = ''timestamp(3) with time zone'', column_name = ''created_at'',
        character_maximum_length = JNull, column_default = None, is_nullable = ''YES''\<rparr>])
   = [(''decimal'', [JNum 10, JNum 2]),
      (''datetime'', [JObj [(''useTz'', JBool False), (''precision'', JNum 6)]])]"
proof -
  let ?n = "\<lparr>data_type = ''NUMERIC(12,4)'', column_name = ''price'',
        character_maximum_length = JNull, column_default = None, is_nullable = ''YES''\<rparr>"
  let ?t = "\<lparr>data_type = ''timestamp(3) with time zone'', column_name = ''created_at'',
        character_maximum_length = JNull, column_default = None, is_nullable = ''YES''\<rparr>"
  have rn: "rootType ?n = Some ''numeric''" by code_simp
  have rt: "rootType ?t = Some ''timestamp''" by code_simp
  have "type (getColumns [?n, ?t] ! 0) = ''decimal''
      \<and> args (getColumns [?n, ?t] ! 0) = [JNum 10, JNum 2]"
    using getColumns_fixed_args[of "[?n, ?t]"] rn by simp
  moreover have "type (getColumns [?n, ?t] ! 1) = ''datetime''
      \<and> args (getColumns [?n, ?t] ! 1)
          = [JObj [(''useTz'', JBool False), (''precision'', JNum 6)]]"
    using getColumns_fixed_args[of "[?n, ?t]"] rt by simp
  ultimately show ?thesis
    by (simp add: getColumns_def)
qed

subsection \<open>Column defaults\<close>

lemma js_includes_iff: "js_includes s sub \<longleftrightarrow> (\<exists>p q. s = p @ sub @ q)"
proof (induction s)
  case Nil
  then show ?case by auto
next
  case (Cons c s)
  have pre: "take (length sub) (c # s) = sub \<longleftrightarrow> (\<exists>q. c # s = sub @ q)"
    by (metis append_eq_conv_conj)
  have "(\<exists>p q. c # s = p @ sub @ q) \<longleftrightarrow> (\<exists>q. c # s = sub @ q) \<or> (\<exists>p q. s = p @ sub @ q)"
  proof
    assume "\<exists>p q. c # s = p @ sub @ q"
    then obtain p q where pq: "c # s = p @ sub @ q" by blast
    show "(\<exists>q. c # s = sub @ q) \<or> (\<exists>p q. s = p @ sub @ q)"
    proof (cases p)
      case Nil
      with pq show ?thesis by auto
    next
      case (Cons a p')
      with pq have "s = p' @ sub @ q" by simp
      then show ?thesis by blast
    qed
  next
    assume "(\<exists>q. c # s = sub @ q) \<or> (\<exists>p q. s = p @ sub @ q)"
    then show "\<exists>p q. c # s = p @ sub @ q"
    proof
      assume "\<exists>q. c # s = sub @ q"
      then obtain q where "c # s = [] @ sub @ q" by auto
      then show ?thesis by blast
    next
      assume "\<exists>p q. s = p @ sub @ q"
      then obtain p q where "c # s = (c # p) @ sub @ q" by auto
      then show ?thesis by blast
    qed
  qed
  with Cons pre show ?case by simp
qed

lemma toColumn_defaultTo:
  "defaultTo (toColumn column) =
     (case column_default column of
        None \<Rightarrow> None
      | Some d \<Rightarrow> if (\<exists>p q. d = p @ ''nextval('' @ q) then None else Some d)"
proof (cases "column_default column")
  case None
  then show ?thesis by (simp add: toColumn_def Let_def)
next
  case (Some d)
  have "js_includes d ''nextval('' \<Longrightarrow> d \<noteq> []"
    by (cases d) auto
  with Some show ?thesis
    by (auto simp add: toColumn_def Let_def js_includes_iff)
qed

text \<open>
  The default of a serial column, as the catalog holds it, is a sequence-generator call in
  the sense of the specification.
\<close>

lemma spec_sequence_call_serial:
  "spec_sequence_call ''nextval('articles_id_seq'::regclass)''"
  by code_simp

text \<open>
  Claim C7, as stated, fails: the default \<open>'call nextval(x)'::text\<close> of a text column is a
  string literal and no call of the sequence generator, yet \<open>getColumns\<close> surfaces \<open>null\<close>
  for it and not the expression of the catalog.
\<close>

theorem getColumns_defaultTo_counterexample:
  "\<not> spec_sequence_call '''call nextval(x)'::text''
   \<and> map defaultTo (getColumns
        [\<lparr>data_type = ''text'', column_name = ''hint'', character_maximum_length = JNull,
           column_default = Some '''call nextval(x)'::text'', is_nullable = ''YES''\<rparr>])
     = [None]
   \<and> map defaultTo (getColumns
        [\<lparr>data_type = ''text'', column_name = ''hint'', character_maximum_length = JNull,
           column_default = Some '''call nextval(x)'::text'', is_nullable = ''YES''\<rparr>])
     \<noteq> [Some '''call nextval(x)'::text'']"
  by code_simp

text \<open>
  Claim C7, amended: for every column that \<open>getColumns\<close> returns, \<open>defaultTo\<close> is \<open>null\<close> when
  the default expression of the catalog contains the text \<open>nextval(\<close> anywhere, be it in a
  call of the sequence generator or inside a string literal, and is the default expression
  of the catalog, unchanged, otherwise (a column without a default keeps \<open>null\<close>).
\<close>

theorem getColumns_defaultTo:
  "\<forall>i < length columns.
     defaultTo (getColumns columns ! i) =
       (case column_default (columns ! i) of
          None \<Rightarrow> None
        | Some d \<Rightarrow> if (\<exists>p q. d = p @ ''nextval('' @ q) then None else Some d)"
  by (simp add: getColumns_def toColumn_defaultTo)

theorem getColumns_defaultTo_witness:
  "map defaultTo (getColumns
      [\<lparr>data_type = ''integer'', column_name = ''id'', character_maximum_length = JNull,
         column_default = Some ''nextval('articles_id_seq'::regclass)'', is_nullable = ''NO''\<rparr>,
       \<lparr>data_type = ''character varying'', column_name = ''title'',
         character_maximum_length = JNum 255,
         column_default = Some '''untitled'::character varying'', is_nullable = ''YES''\<rparr>])
   = [None, Some '''untitled'::character varying'']"
proof -
  let ?cs = "[\<lparr>data_type = ''integer'', column_name = ''id'', character_maximum_length = JNull,
         column_default = Some ''nextval('articles_id_seq'::regclass)'', is_nullable = ''NO''\<rparr>,
       \<lparr>data_type = ''character varying'', column_name = ''title'',
         character_maximum_length = JNum 255,
         column_default = Some '''untitled'::character varying'', is_nullable = ''YES''\<rparr>]"
  have a: "\<exists>p q. ''nextval('articles_id_seq'::regclass)'' = p @ ''nextval('' @ q"
    by (rule exI[of _ "[]"], rule exI[of _ "'''articles_id_seq'::regclass)''"]) simp
  have b: "\<not> (\<exists>p q. '''untitled'::character varying'' = p @ ''nextval('' @ q)"
    unfolding js_includes_iff[symmetric] by code_simp
  have "defaultTo (getColumns ?cs ! 0) = None"
    using getColumns_defaultTo[of ?cs] a by simp
  moreover have "defaultTo (getColumns ?cs ! 1) = Some '''untitled'::character varying''"
    using getColumns_defaultTo[of ?cs] b by simp
  ultimately show ?thesis
    by (simp add: getColumns_def)
qed

subsection \<open>Index kinds\<close>

lemma getIndexType_kinds: "getIndexType r \<in> {JStr ''primary'', JStr ''unique'', JUndefined}"
  by (simp add: getIndexType_def)

lemma toIndex_type: "toIndex r = Inr i \<Longrightarrow> index_type i = getIndexType r"
  by (auto simp add: toIndex_def split: js_val.splits)

lemma map_throwing_Inr:
  "map_throwing f xs = Inr ys \<Longrightarrow> y \<in> set ys \<Longrightarrow> \<exists>x \<in> set xs. f x = Inr y"
proof (induction xs arbitrary: ys)
  case Nil
  then show ?case by simp
next
  case (Cons x xs)
  then show ?case
    by (auto split: sum.splits)
qed

lemma getIndexes_kinds:
  assumes "getIndexes rows = Inr idxs" and "i \<in> set idxs"
  shows "index_type i \<in> {JStr ''primary'', JStr ''unique'', JUndefined}"
proof -
  from assms obtain r where "toIndex r = Inr i"
    unfolding getIndexes_def by (blast dest: map_throwing_Inr)
  then show ?thesis using getIndexType_kinds[of r] by (simp add: toIndex_type)
qed

text \<open>
  The rows that \<open>getIndexes\<close> hands to \<open>getIndexType\<close> carry the two selected columns only,
  so neither flag is there to be read and every index comes out without a kind.
\<close>

lemma getIndexes_type_undefined:
  assumes "getIndexes rows = Inr idxs" and "i \<in> set idxs"
  shows "index_type i = JUndefined"
proof -
  have sel: "get_prop (knex_select [''indexname'', ''indexdef''] r) k = JUndefined"
    if "k \<noteq> ''indexname''" "k \<noteq> ''indexdef''" for r k
  proof -
    have "map_of (filter (\<lambda>kv. fst kv \<in> set [''indexname'', ''indexdef'']) r) k = None"
      using that by (induction r) auto
    then show ?thesis by (simp add: get_prop_def knex_select_def)
  qed
  from assms obtain r where r: "toIndex (knex_select [''indexname'', ''indexdef''] r) = Inr i"
    unfolding getIndexes_def by (auto dest!: map_throwing_Inr)
  then show ?thesis
    by (simp add: toIndex_type getIndexType_def sel)
qed

text \<open>
  Claim C6, as stated, fails: the index of an ordinary \<open>CREATE INDEX\<close> comes out of
  \<open>getIndexes\<close> with the kind \<open>undefined\<close>, which is none of primary, unique, secondary.
\<close>

theorem index_kind_counterexample:
  "getIndexes [[(''schemaname'', JStr ''public''), (''tablename'', JStr ''articles''),
       (''indexname'', JStr ''articles_title_index''), (''tablespace'', JNull),
       (''indexdef'',
        JStr ''CREATE INDEX articles_title_index ON public.articles USING btree (title, locale)'')]]
   = Inr [\<lparr>index_name = JStr ''articles_title_index'', index_columns = [''title'', ''locale''],
            index_type = JUndefined\<rparr>]
   \<and> JUndefined \<notin> spec_index_kinds"
  unfolding spec_index_kinds_def by code_simp

text \<open>
  Claim C6, amended: the kind of every index that \<open>getIndexes\<close> returns is \<open>primary\<close>,
  \<open>unique\<close>, or absent (\<open>undefined\<close>); and \<open>getIndexType\<close> gives \<open>primary\<close> whenever the
  primary flag of the row is set, whether or not the unique flag is set too, \<open>unique\<close> when
  only the unique flag is set, and no kind when neither is.
\<close>

theorem index_kind:
  "(getIndexes rows = Inr idxs \<longrightarrow>
      (\<forall>i \<in> set idxs. index_type i \<in> {JStr ''primary'', JStr ''unique'', JUndefined}))
   \<and> (truthy (get_prop r ''is_primary'') \<longrightarrow> getIndexType r = JStr ''primary'')
   \<and> (\<not> truthy (get_prop r ''is_primary'') \<and> truthy (get_prop r ''is_unique'') \<longrightarrow>
        getIndexType r = JStr ''unique'')
   \<and> (\<not> truthy (get_prop r ''is_primary'') \<and> \<not> truthy (get_prop r ''is_unique'') \<longrightarrow>
        getIndexType r = JUndefined)"
  using getIndexes_kinds[of rows idxs] by (simp add: getIndexType_def)

theorem index_kind_witness:
  "(case getIndexes [[(''indexname'', JStr ''articles_pkey''),
         (''indexdef'',
          JStr ''CREATE UNIQUE INDEX articles_pkey ON public.articles USING btree (id)'')]] of
      Inl e \<Rightarrow> [] | Inr idxs \<Rightarrow> map index_type idxs) = [JUndefined]
   \<and> getIndexType [(''index_name'', JStr ''articles_pkey''), (''is_unique'', JBool True),
                 (''is_primary'', JBool True)] = JStr ''primary''
   \<and> getIndexType [(''index_name'', JStr ''articles_slug_unique''), (''is_unique'', JBool True),
                 (''is_primary'', JBool False)] = JStr ''unique''
   \<and> getIndexType [(''index_name'', JStr ''articles_title_index''), (''is_unique'', JBool False),
                 (''is_primary'', JBool False)] = JUndefined"
proof -
  let ?p = "[(''index_name'', JStr ''articles_pkey''), (''is_unique'', JBool True),
             (''is_primary'', JBool True)]"
  let ?u = "[(''index_name'', JStr ''articles_slug_unique''), (''is_unique'', JBool True),
             (''is_primary'', JBool False)]"
  let ?s = "[(''index_name'', JStr ''articles_title_index''), (''is_unique'', JBool False),
             (''is_primary'', JBool False)]"
  let ?rows = "[[(''indexname'', JStr ''articles_pkey''),
         (''indexdef'',
          JStr ''CREATE UNIQUE INDEX articles_pkey ON public.articles USING btree (id)'')]]"
  let ?idxs = "[\<lparr>index_name = JStr ''articles_pkey'', index_columns = [''id''],
                 index_type = JUndefined\<rparr>]"
  have g: "getIndexes ?rows = Inr ?idxs" by code_simp
  have "getIndexType ?p = JStr ''primary''"
    using index_kind[of ?rows ?idxs ?p] g by (simp add: get_prop_def)
  moreover have "getIndexType ?u = JStr ''unique''"
    using index_kind[of "[]" "[]" ?u] by (simp add: get_prop_def)
  moreover have "getIndexType ?s = JUndefined"
    using index_kind[of "[]" "[]" ?s] by (simp add: get_prop_def)
  ultimately show ?thesis by (simp add: g)
qed

section \<open>Properties of the \<open>Protect\<close> wrapper\<close>

lemma matchingPermissions_Nil: "matchingPermissions allPermissions [] = []"
  by (simp add: matchingPermissions_def)

text \<open>
  When the query has ended with an error, one render raises one warning notification with
  the formatted error and returns the error page.
\<close>

lemma Protect_query_failure:
  assumes "q (map (\<lambda>perm. (action perm, subject perm)) (matchingPermissions allPermissions ps))
             (\<not> shouldCheckConditions (matchingPermissions allPermissions ps))
           = \<lparr>isLoading = False, error = Some e, data = d\<rparr>"
  shows "Protect allPermissions q formatAPIError (Some ps) children
         = \<lparr>element = Error,
            notifications = [\<lparr>notification_type = ''warning'', message = formatAPIError e\<rparr>]\<rparr>"
  using assms by (simp add: Protect_def Let_def)

text \<open>
  When the children are rendered, the user holds at least one of the permissions asked for,
  and no condition check on the permissions held came back false.
\<close>

lemma Protect_content:
  assumes "element (Protect allPermissions q formatAPIError (Some ps) children) = Content n"
  shows "matchingPermissions allPermissions ps \<noteq> []"
proof -
  have "shouldCheckConditions [] = False"
    by (simp add: shouldCheckConditions_def)
  with assms show ?thesis
    by (auto simp add: Protect_def Let_def split: if_splits)
qed

text \<open>
  Claim C8 at a user who holds one of the two permissions a page asks for: the page asks for
  \<open>admin::roles.read\<close> and \<open>admin::roles.update\<close>, the user holds only the first, without
  conditions, and \<open>Protect\<close> renders the children.
\<close>

theorem Protect_partial_permissions:
  "element (Protect
      [\<lparr>action = ''admin::roles.read'', subject = SubjectNull, conditions = Some []\<rparr>]
      (\<lambda>ps skip. \<lparr>isLoading = False, error = (None :: string option), data = None\<rparr>)
      (\<lambda>e. e)
      (Some [\<lparr>action = ''admin::roles.read'', subject = SubjectNull, conditions = None\<rparr>,
             \<lparr>action = ''admin::roles.update'', subject = SubjectNull, conditions = None\<rparr>])
      (Node ''page'')) = Content ''page''"
  by (simp add: Protect_def matchingPermissions_def shouldCheckConditions_def Let_def)

text \<open>
  Claim C9: with the \<open>permissions\<close> prop empty or left out, \<open>Protect\<close> never renders its
  children, whatever permissions the user has; and it renders the no-access page as soon as
  the query hook, which is skipped in that case, reports neither loading nor an error.
\<close>

theorem Protect_no_permissions:
  assumes "permissions_prop = None \<or> permissions_prop = Some []"
  shows "(\<forall>n. element (Protect allPermissions q formatAPIError permissions_prop children)
              \<noteq> Content n)
     \<and> (\<not> isLoading (q [] True) \<and> error (q [] True) = None \<longrightarrow>
          element (Protect allPermissions q formatAPIError permissions_prop children)
          = NoPermissions)"
  using assms
  by (auto simp add: Protect_def matchingPermissions_Nil shouldCheckConditions_def Let_def)

theorem Protect_no_permissions_witness:
  "element (Protect
      [\<lparr>action = ''admin::roles.read'', subject = SubjectNull, conditions = Some []\<rparr>]
      (\<lambda>ps skip. \<lparr>isLoading = False, error = (None :: string option), data = None\<rparr>)
      (\<lambda>e. e) (Some []) (Node ''page'')) = NoPermissions"
  using Protect_no_permissions[where permissions_prop = "Some []"
      and q = "(\<lambda>ps skip. \<lparr>isLoading = False, error = (None :: string option), data = None\<rparr>)"
      and allPermissions =
        "[\<lparr>action = ''admin::roles.read'', subject = SubjectNull, conditions = Some []\<rparr>]"
      and formatAPIError = "(\<lambda>e. e)" and children = "Node ''page''"]
  by simp

section \<open>Properties of the delete path\<close>

subsection \<open>What a delete leaves in each table\<close>

lemma versions_fold_deleteVersion:
  "versions (fold deleteVersion ts st) = filter (\<lambda>w. w \<notin> set ts) (versions st)"
proof (induction ts arbitrary: st)
  case Nil
  then show ?case by simp
next
  case (Cons t ts)
  have "versions (deleteVersion t st) = filter (\<lambda>w. w \<noteq> t) (versions st)"
    by (simp add: deleteVersion_def Let_def)
  with Cons show ?case
    by (auto intro: filter_cong)
qed

lemma components_fold_deleteVersion:
  "components (fold deleteVersion ts st)
   = filter (\<lambda>c. \<forall>t \<in> set ts. child_id c \<notin> set (componentRefs t)) (components st)"
proof (induction ts arbitrary: st)
  case Nil
  then show ?case by simp
next
  case (Cons t ts)
  have "components (deleteVersion t st)
        = filter (\<lambda>c. child_id c \<notin> set (componentRefs t)) (components st)"
    by (simp add: deleteVersion_def Let_def)
  with Cons show ?case
    by (auto intro: filter_cong)
qed

lemma dynamicZones_fold_deleteVersion:
  "dynamicZones (fold deleteVersion ts st)
   = filter (\<lambda>c. \<forall>t \<in> set ts. child_id c \<notin> set (dynamicZoneRefs t)) (dynamicZones st)"
proof (induction ts arbitrary: st)
  case Nil
  then show ?case by simp
next
  case (Cons t ts)
  have "dynamicZones (deleteVersion t st)
        = filter (\<lambda>c. child_id c \<notin> set (dynamicZoneRefs t)) (dynamicZones st)"
    by (simp add: deleteVersion_def Let_def)
  with Cons show ?case
    by (auto intro: filter_cong)
qed

lemma delete_versions:
  assumes nd: "opt_status opts \<noteq> Some Draft"
  shows "versions (fst (delete st d opts)) = filter (\<lambda>v. \<not> in_scope d opts v) (versions st)"
proof (cases "filter (in_scope d opts) (versions st) = []")
  case True
  then have "\<forall>v \<in> set (versions st). \<not> in_scope d opts v"
    by (simp add: filter_empty_conv)
  then have "filter (\<lambda>v. \<not> in_scope d opts v) (versions st) = versions st"
    by simp
  with True nd show ?thesis by (simp add: delete_def)
next
  case False
  with nd show ?thesis
    by (auto simp add: delete_def Let_def versions_fold_deleteVersion intro: filter_cong)
qed

lemma delete_components:
  assumes nd: "opt_status opts \<noteq> Some Draft"
  shows "components (fst (delete st d opts))
   = filter (\<lambda>c. \<forall>v \<in> set (versions st).
                  in_scope d opts v \<longrightarrow> child_id c \<notin> set (componentRefs v))
       (components st)"
proof (cases "filter (in_scope d opts) (versions st) = []")
  case True
  then have "\<forall>v \<in> set (versions st). \<not> in_scope d opts v"
    by (simp add: filter_empty_conv)
  then have "filter (\<lambda>c. \<forall>v \<in> set (versions st).
                  in_scope d opts v \<longrightarrow> child_id c \<notin> set (componentRefs v))
       (components st) = components st"
    by simp
  with True nd show ?thesis by (simp add: delete_def)
next
  case False
  with nd show ?thesis
    by (auto simp add: delete_def Let_def components_fold_deleteVersion intro: filter_cong)
qed

lemma delete_dynamicZones:
  assumes nd: "opt_status opts \<noteq> Some Draft"
  shows "dynamicZones (fst (delete st d opts))
   = filter (\<lambda>c. \<forall>v \<in> set (versions st).
                  in_scope d opts v \<longrightarrow> child_id c \<notin> set (dynamicZoneRefs v))
       (dynamicZones st)"
proof (cases "filter (in_scope d opts) (versions st) = []")
  case True
  then have "\<forall>v \<in> set (versions st). \<not> in_scope d opts v"
    by (simp add: filter_empty_conv)
  then have "filter (\<lambda>c. \<forall>v \<in> set (versions st).
                  in_scope d opts v \<longrightarrow> child_id c \<notin> set (dynamicZoneRefs v))
       (dynamicZones st) = dynamicZones st"
    by simp
  with True nd show ?thesis by (simp add: delete_def)
next
  case False
  with nd show ?thesis
    by (auto simp add: delete_def Let_def dynamicZones_fold_deleteVersion intro: filter_cong)
qed

lemma delete_outcome:
  "opt_status opts \<noteq> Some Draft \<Longrightarrow>
   snd (delete st d opts)
   = (if \<exists>v \<in> set (versions st). in_scope d opts v then Inr () else Inl NotFoundError)"
  by (auto simp add: delete_def Let_def filter_empty_conv)

subsection \<open>What a delete leaves alone\<close>

lemma delete_keeps_components:
  assumes "exclusive_ownership st" and "w \<in> set (versions st)" and "\<not> in_scope d opts w"
    and "opt_status opts \<noteq> Some Draft"
  shows "filter (\<lambda>c. child_id c \<in> set (componentRefs w)) (components (fst (delete st d opts)))
       = filter (\<lambda>c. child_id c \<in> set (componentRefs w)) (components st)"
proof -
  have "child_id c \<notin> set (componentRefs v)"
    if "child_id c \<in> set (componentRefs w)" "v \<in> set (versions st)" "in_scope d opts v" for c v
  proof -
    from that assms(3) have "v \<noteq> w" by auto
    with assms(1,2) that(2) have "set (componentRefs v) \<inter> set (componentRefs w) = {}"
      unfolding exclusive_ownership_def by blast
    with that(1) show ?thesis by auto
  qed
  then show ?thesis
    unfolding delete_components[OF assms(4)] filter_filter
    by (intro filter_cong) auto
qed

lemma delete_keeps_dynamicZones:
  assumes "exclusive_ownership st" and "w \<in> set (versions st)" and "\<not> in_scope d opts w"
    and "opt_status opts \<noteq> Some Draft"
  shows "filter (\<lambda>c. child_id c \<in> set (dynamicZoneRefs w))
           (dynamicZones (fst (delete st d opts)))
       = filter (\<lambda>c. child_id c \<in> set (dynamicZoneRefs w)) (dynamicZones st)"
proof -
  have "child_id c \<notin> set (dynamicZoneRefs v)"
    if "child_id c \<in> set (dynamicZoneRefs w)" "v \<in> set (versions st)" "in_scope d opts v"
    for c v
  proof -
    from that assms(3) have "v \<noteq> w" by auto
    with assms(1,2) that(2) have "set (dynamicZoneRefs v) \<inter> set (dynamicZoneRefs w) = {}"
      unfolding exclusive_ownership_def by blast
    with that(1) show ?thesis by auto
  qed
  then show ?thesis
    unfolding delete_dynamicZones[OF assms(4)] filter_filter
    by (intro filter_cong) auto
qed

subsection \<open>The four ways to call delete\<close>

text \<open>
  Claim C1: \<open>delete(documentId)\<close> with no options leaves exactly the version rows of the
  other documents, so no version row of the document in any locale or status; and of every
  version row the document had, no owned component row and no owned dynamic-zone row is
  left.
\<close>

theorem delete_entire_document:
  "versions (fst (delete st d \<lparr>opt_locale = None, opt_status = None\<rparr>))
     = filter (\<lambda>v. documentId v \<noteq> d) (versions st)
   \<and> (\<forall>v \<in> set (versions (fst (delete st d \<lparr>opt_locale = None, opt_status = None\<rparr>))).
         documentId v \<noteq> d)
   \<and> (\<forall>v \<in> set (versions st). documentId v = d \<longrightarrow>
        (\<forall>c \<in> set (components (fst (delete st d \<lparr>opt_locale = None, opt_status = None\<rparr>))).
           child_id c \<notin> set (componentRefs v))
        \<and> (\<forall>c \<in> set (dynamicZones (fst (delete st d \<lparr>opt_locale = None, opt_status = None\<rparr>))).
           child_id c \<notin> set (dynamicZoneRefs v)))"
proof -
  let ?opts = "\<lparr>opt_locale = None, opt_status = None\<rparr>"
  have nd: "opt_status ?opts \<noteq> Some Draft" by simp
  have sc: "in_scope d ?opts v \<longleftrightarrow> documentId v = d" for v
    by (simp add: in_scope_def)
  show ?thesis
    unfolding delete_versions[OF nd] delete_components[OF nd] delete_dynamicZones[OF nd] sc
    by auto
qed

theorem delete_entire_document_witness:
  "delete example_store ''Article1'' \<lparr>opt_locale = None, opt_status = None\<rparr>
   = (\<lparr>versions =
        [\<lparr>version_id = 3, documentId = ''Article2'', version_locale = ''en'',
           version_status = Draft, version_fields = [(''title'', ''Article2-Draft-EN'')],
           componentRefs = [3], dynamicZoneRefs = []\<rparr>,
         \<lparr>version_id = 4, documentId = ''Article2'', version_locale = ''en'',
           version_status = Published, version_fields = [(''title'', ''Article2-Published-EN'')],
           componentRefs = [4], dynamicZoneRefs = [2]\<rparr>],
      components =
        [\<lparr>child_id = 3, child_fields = [(''text'', ''comp-3'')]\<rparr>,
         \<lparr>child_id = 4, child_fields = [(''text'', ''comp-4'')]\<rparr>],
      dynamicZones =
        [\<lparr>child_id = 2, child_fields = [(''name'', ''dz-comp-2'')]\<rparr>]\<rparr>, Inr ())"
  using delete_entire_document[of example_store "''Article1''"]
  by (simp add: example_store_def delete_def in_scope_def deleteVersion_def Let_def)

text \<open>
  Claim C2: \<open>delete(documentId, { status: 'draft' })\<close>, with or without a locale, is rejected
  with the validation error \<open>Cannot delete a draft document\<close>, and the store is the one
  before the call.
\<close>

theorem delete_draft_rejected:
  "delete st d \<lparr>opt_locale = l, opt_status = Some Draft\<rparr>
   = (st, Inl (ValidationError ''Cannot delete a draft document''))"
  by (simp add: delete_def)

theorem delete_draft_rejected_witness:
  "delete example_store ''Article2'' \<lparr>opt_locale = Some ''en'', opt_status = Some Draft\<rparr>
   = (example_store, Inl (ValidationError ''Cannot delete a draft document''))"
  using delete_draft_rejected[of example_store "''Article2''" "Some ''en''"] .

text \<open>
  Claim C3: \<open>delete(documentId, { status: 'published' })\<close> removes the published rows of the
  document in the locale scope and nothing else: the draft rows are the same rows, in the
  same number, after the call, none of the rows aimed at is left, the call succeeds when
  there was a published row to delete, and under exclusive ownership the child rows of
  every draft are the same as before.
\<close>

theorem delete_published_keeps_draft:
  "versions (fst (delete st d \<lparr>opt_locale = l, opt_status = Some Published\<rparr>))
     = filter (\<lambda>v. \<not> in_scope d \<lparr>opt_locale = l, opt_status = Some Published\<rparr> v) (versions st)
   \<and> filter (\<lambda>v. version_status v = Draft)
        (versions (fst (delete st d \<lparr>opt_locale = l, opt_status = Some Published\<rparr>)))
     = filter (\<lambda>v. version_status v = Draft) (versions st)
   \<and> (\<forall>v \<in> set (versions (fst (delete st d \<lparr>opt_locale = l, opt_status = Some Published\<rparr>))).
        \<not> in_scope d \<lparr>opt_locale = l, opt_status = Some Published\<rparr> v)
   \<and> ((\<exists>v \<in> set (versions st). in_scope d \<lparr>opt_locale = l, opt_status = Some Published\<rparr> v) \<longrightarrow>
        snd (delete st d \<lparr>opt_locale = l, opt_status = Some Published\<rparr>) = Inr ())
   \<and> (exclusive_ownership st \<longrightarrow>
        (\<forall>w \<in> set (versions st). version_status w = Draft \<longrightarrow>
           filter (\<lambda>c. child_id c \<in> set (componentRefs w))
             (components (fst (delete st d \<lparr>opt_locale = l, opt_status = Some Published\<rparr>)))
           = filter (\<lambda>c. child_id c \<in> set (componentRefs w)) (components st)
           \<and> filter (\<lambda>c. child_id c \<in> set (dynamicZoneRefs w))
             (dynamicZones (fst (delete st d \<lparr>opt_locale = l, opt_status = Some Published\<rparr>)))
           = filter (\<lambda>c. child_id c \<in> set (dynamicZoneRefs w)) (dynamicZones st)))"
proof -
  let ?opts = "\<lparr>opt_locale = l, opt_status = Some Published\<rparr>"
  have nd: "opt_status ?opts \<noteq> Some Draft" by simp
  have dr: "version_status v = Draft \<Longrightarrow> \<not> in_scope d ?opts v" for v
    by (simp add: in_scope_def)
  have v: "versions (fst (delete st d ?opts)) = filter (\<lambda>v. \<not> in_scope d ?opts v) (versions st)"
    by (rule delete_versions[OF nd])
  have "filter (\<lambda>v. version_status v = Draft) (versions (fst (delete st d ?opts)))
        = filter (\<lambda>v. version_status v = Draft) (versions st)"
    unfolding v filter_filter by (intro filter_cong) (auto dest: dr)
  moreover have "\<forall>v \<in> set (versions (fst (delete st d ?opts))). \<not> in_scope d ?opts v"
    unfolding v by simp
  moreover have "(\<exists>v \<in> set (versions st). in_scope d ?opts v) \<longrightarrow>
        snd (delete st d ?opts) = Inr ()"
    by (simp add: delete_outcome[OF nd])
  moreover have "exclusive_ownership st \<longrightarrow>
        (\<forall>w \<in> set (versions st). version_status w = Draft \<longrightarrow>
           filter (\<lambda>c. child_id c \<in> set (componentRefs w)) (components (fst (delete st d ?opts)))
           = filter (\<lambda>c. child_id c \<in> set (componentRefs w)) (components st)
           \<and> filter (\<lambda>c. child_id c \<in> set (dynamicZoneRefs w))
               (dynamicZones (fst (delete st d ?opts)))
           = filter (\<lambda>c. child_id c \<in> set (dynamicZoneRefs w)) (dynamicZones st))"
    using delete_keeps_components[OF _ _ dr nd] delete_keeps_dynamicZones[OF _ _ dr nd]
    by blast
  ultimately show ?thesis using v by blast
qed

theorem delete_published_keeps_draft_witness:
  "exclusive_ownership example_store
   \<and> delete example_store ''Article2'' \<lparr>opt_locale = None, opt_status = Some Published\<rparr>
   = (\<lparr>versions =
        [\<lparr>version_id = 1, documentId = ''Article1'', version_locale = ''en'',
           version_status = Draft, version_fields = [(''title'', ''Article1-Draft-EN'')],
           componentRefs = [1], dynamicZoneRefs = [1]\<rparr>,
         \<lparr>version_id = 2, documentId = ''Article1'', version_locale = ''nl'',
           version_status = Draft, version_fields = [(''title'', ''Article1-Draft-NL'')],
           componentRefs = [2], dynamicZoneRefs = []\<rparr>,
         \<lparr>version_id = 3, documentId = ''Article2'', version_locale = ''en'',
           version_status = Draft, version_fields = [(''title'', ''Article2-Draft-EN'')],
           componentRefs = [3], dynamicZoneRefs = []\<rparr>],
      components =
        [\<lparr>child_id = 1, child_fields = [(''text'', ''comp-1'')]\<rparr>,
         \<lparr>child_id = 2, child_fields = [(''text'', ''comp-2'')]\<rparr>,
         \<lparr>child_id = 3, child_fields = [(''text'', ''comp-3'')]\<rparr>],
      dynamicZones =
        [\<lparr>child_id = 1, child_fields = [(''name'', ''dz-comp-1'')]\<rparr>]\<rparr>, Inr ())"
  using delete_published_keeps_draft[of example_store "''Article2''" None]
  by (simp add: exclusive_ownership_def example_store_def delete_def in_scope_def
        deleteVersion_def Let_def)

text \<open>
  Claim C4: \<open>delete(documentId, { locale: L })\<close> removes the rows of the document in locale
  \<open>L\<close>, drafts and published alike, and the child rows they own; the rows of every other
  locale are the same rows, in the same number, after the call, and under exclusive
  ownership so are the child rows that each of them owns.
\<close>

theorem delete_locale_frame:
  "versions (fst (delete st d \<lparr>opt_locale = Some L, opt_status = None\<rparr>))
     = filter (\<lambda>v. \<not> (documentId v = d \<and> version_locale v = L)) (versions st)
   \<and> (\<forall>v \<in> set (versions st). documentId v = d \<and> version_locale v = L \<longrightarrow>
        (\<forall>c \<in> set (components (fst (delete st d \<lparr>opt_locale = Some L, opt_status = None\<rparr>))).
           child_id c \<notin> set (componentRefs v))
        \<and> (\<forall>c \<in> set (dynamicZones (fst (delete st d \<lparr>opt_locale = Some L, opt_status = None\<rparr>))).
           child_id c \<notin> set (dynamicZoneRefs v)))
   \<and> filter (\<lambda>v. version_locale v \<noteq> L)
        (versions (fst (delete st d \<lparr>opt_locale = Some L, opt_status = None\<rparr>)))
     = filter (\<lambda>v. version_locale v \<noteq> L) (versions st)
   \<and> (exclusive_ownership st \<longrightarrow>
        (\<forall>w \<in> set (versions st). version_locale w \<noteq> L \<longrightarrow>
           filter (\<lambda>c. child_id c \<in> set (componentRefs w))
             (components (fst (delete st d \<lparr>opt_locale = Some L, opt_status = None\<rparr>)))
           = filter (\<lambda>c. child_id c \<in> set (componentRefs w)) (components st)
           \<and> filter (\<lambda>c. child_id c \<in> set (dynamicZoneRefs w))
             (dynamicZones (fst (delete st d \<lparr>opt_locale = Some L, opt_status = None\<rparr>)))
           = filter (\<lambda>c. child_id c \<in> set (dynamicZoneRefs w)) (dynamicZones st)))"
proof -
  let ?opts = "\<lparr>opt_locale = Some L, opt_status = None\<rparr>"
  have nd: "opt_status ?opts \<noteq> Some Draft" by simp
  have sc: "in_scope d ?opts v \<longleftrightarrow> documentId v = d \<and> version_locale v = L" for v
    by (simp add: in_scope_def)
  have ol: "version_locale v \<noteq> L \<Longrightarrow> \<not> in_scope d ?opts v" for v
    by (simp add: in_scope_def)
  have v: "versions (fst (delete st d ?opts))
           = filter (\<lambda>v. \<not> (documentId v = d \<and> version_locale v = L)) (versions st)"
    unfolding delete_versions[OF nd] sc by simp
  have "\<forall>v \<in> set (versions st). documentId v = d \<and> version_locale v = L \<longrightarrow>
        (\<forall>c \<in> set (components (fst (delete st d ?opts))). child_id c \<notin> set (componentRefs v))
        \<and> (\<forall>c \<in> set (dynamicZones (fst (delete st d ?opts))).
             child_id c \<notin> set (dynamicZoneRefs v))"
    unfolding delete_components[OF nd] delete_dynamicZones[OF nd] sc by auto
  moreover have "filter (\<lambda>v. version_locale v \<noteq> L) (versions (fst (delete st d ?opts)))
        = filter (\<lambda>v. version_locale v \<noteq> L) (versions st)"
    unfolding v filter_filter by (intro filter_cong) auto
  moreover have "exclusive_ownership st \<longrightarrow>
        (\<forall>w \<in> set (versions st). version_locale w \<noteq> L \<longrightarrow>
           filter (\<lambda>c. child_id c \<in> set (componentRefs w)) (components (fst (delete st d ?opts)))
           = filter (\<lambda>c. child_id c \<in> set (componentRefs w)) (components st)
           \<and> filter (\<lambda>c. child_id c \<in> set (dynamicZoneRefs w))
               (dynamicZones (fst (delete st d ?opts)))
           = filter (\<lambda>c. child_id c \<in> set (dynamicZoneRefs w)) (dynamicZones st))"
    using delete_keeps_components[OF _ _ ol nd] delete_keeps_dynamicZones[OF _ _ ol nd]
    by blast
  ultimately show ?thesis using v by blast
qed

theorem delete_locale_frame_witness:
  "exclusive_ownership example_store
   \<and> delete example_store ''Article1'' \<lparr>opt_locale = Some ''nl'', opt_status = None\<rparr>
   = (\<lparr>versions =
        [\<lparr>version_id = 1, documentId = ''Article1'', version_locale = ''en'',
           version_status = Draft, version_fields = [(''title'', ''Article1-Draft-EN'')],
           componentRefs = [1], dynamicZoneRefs = [1]\<rparr>,
         \<lparr>version_id = 3, documentId = ''Article2'', version_locale = ''en'',
           version_status = Draft, version_fields = [(''title'', ''Article2-Draft-EN'')],
           componentRefs = [3], dynamicZoneRefs = []\<rparr>,
         \<lparr>version_id = 4, documentId = ''Article2'', version_locale = ''en'',
           version_status = Published, version_fields = [(''title'', ''Article2-Published-EN'')],
           componentRefs = [4], dynamicZoneRefs = [2]\<rparr>],
      components =
        [\<lparr>child_id = 1, child_fields = [(''text'', ''comp-1'')]\<rparr>,
         \<lparr>child_id = 3, child_fields = [(''text'', ''comp-3'')]\<rparr>,
         \<lparr>child_id = 4, child_fields = [(''text'', ''comp-4'')]\<rparr>],
      dynamicZones =
        [\<lparr>child_id = 1, child_fields = [(''name'', ''dz-comp-1'')]\<rparr>,
         \<lparr>child_id = 2, child_fields = [(''name'', ''dz-comp-2'')]\<rparr>]\<rparr>, Inr ())"
  using delete_locale_frame[of example_store "''Article1''" "''nl''"]
  by (simp add: exclusive_ownership_def example_store_def delete_def in_scope_def
        deleteVersion_def Let_def)

end
